theory Spec2Isabelle
  imports Main "HOL-Library.Word"
begin

section \<open>HTTP headers\<close>

text \<open>
  Go's \<open>http.Header\<close> is \<open>map[string][]string\<close>.  It is modelled as an association
  list from keys to value lists; the list order stands for the (unspecified) order in
  which \<open>range\<close> visits the map, and a well-formed header has pairwise different keys,
  as every map has.

  \<open>Header.Del\<close> and \<open>Header.Add\<close> are methods of the standard library
  (\<open>net/textproto\<close>): both first bring the key into canonical MIME form
  (\<open>CanonicalMIMEHeaderKey\<close>), \<open>Del\<close> then deletes that key from the map and \<open>Add\<close>
  appends the value to the list stored under that key.  Indexing \<open>h[k]\<close> reads the map
  directly and gives the nil slice (length 0) for an absent key.
\<close>

type_synonym Header = "(string \<times> string list) list"

definition validHeaderFieldByte :: "char \<Rightarrow> bool" where
  "validHeaderFieldByte c =
     (let n = (of_char c :: nat) in
        (48 \<le> n \<and> n \<le> 57) \<or> (65 \<le> n \<and> n \<le> 90) \<or> (97 \<le> n \<and> n \<le> 122) \<or>
        n \<in> {33, 35, 36, 37, 38, 39, 42, 43, 45, 46, 94, 95, 96, 124, 126})"

definition is_lower :: "char \<Rightarrow> bool" where
  "is_lower c = (97 \<le> (of_char c :: nat) \<and> (of_char c :: nat) \<le> 122)"

definition is_upper :: "char \<Rightarrow> bool" where
  "is_upper c = (65 \<le> (of_char c :: nat) \<and> (of_char c :: nat) \<le> 90)"

definition toLower :: nat where
  "toLower = 32"

text \<open>
  The loop of \<open>canonicalMIMEHeaderKey\<close>: the first letter and every letter after a dash
  in upper case, the other letters in lower case.
\<close>

definition canonical_byte :: "bool \<Rightarrow> char \<Rightarrow> char" where
  "canonical_byte upper c =
     (if upper \<and> is_lower c then char_of (of_char c - toLower)
      else if \<not> upper \<and> is_upper c then char_of (of_char c + toLower)
      else c)"

fun canonicalize :: "bool \<Rightarrow> string \<Rightarrow> string" where
  "canonicalize upper [] = []"
| "canonicalize upper (c # cs) =
     canonical_byte upper c # canonicalize (canonical_byte upper c = CHR ''-'') cs"

definition CanonicalMIMEHeaderKey :: "string \<Rightarrow> string" where
  "CanonicalMIMEHeaderKey s =
     (if list_all validHeaderFieldByte s then canonicalize True s else s)"

definition Del :: "Header \<Rightarrow> string \<Rightarrow> Header" where
  "Del h key = filter (\<lambda>(k, vs). k \<noteq> CanonicalMIMEHeaderKey key) h"

fun append_value :: "Header \<Rightarrow> string \<Rightarrow> string \<Rightarrow> Header" where
  "append_value [] key v = [(key, [v])]"
| "append_value ((k, vs) # h) key v =
     (if k = key then (k, vs @ [v]) # h else (k, vs) # append_value h key v)"

definition Add :: "Header \<Rightarrow> string \<Rightarrow> string \<Rightarrow> Header" where
  "Add h key v = append_value h (CanonicalMIMEHeaderKey key) v"

definition index :: "Header \<Rightarrow> string \<Rightarrow> string list" where
  "index h key = (case map_of h key of None \<Rightarrow> [] | Some vs \<Rightarrow> vs)"

subsection \<open>copyHeaders (goproxy)\<close>

text \<open>
  \<^verbatim>\<open>
  func copyHeaders(dst, src http.Header) {
      for k, _ := range dst { dst.Del(k) }
      for k, vs := range src {
          for _, v := range vs { dst.Add(k, v) }
      }
  }
  \<close>
  \<open>dst\<close> and \<open>src\<close> are two different maps, as at the call in \<open>ServeHTTP\<close>
  (\<open>w.Header()\<close> and \<open>resp.Header\<close>).  The first loop runs over the keys \<open>dst\<close> has
  when the loop starts: a key deleted before the loop reaches it is skipped by Go, and
  deleting it once more changes nothing.
\<close>

fun range_Del :: "Header \<Rightarrow> string list \<Rightarrow> Header" where
  "range_Del dst [] = dst"
| "range_Del dst (k # ks) = range_Del (Del dst k) ks"

fun range_values :: "Header \<Rightarrow> string \<Rightarrow> string list \<Rightarrow> Header" where
  "range_values dst k [] = dst"
| "range_values dst k (v # vs) = range_values (Add dst k v) k vs"

fun range_Add :: "Header \<Rightarrow> Header \<Rightarrow> Header" where
  "range_Add dst [] = dst"
| "range_Add dst ((k, vs) # src) = range_Add (range_values dst k vs) src"

definition copyHeaders :: "Header \<Rightarrow> Header \<Rightarrow> Header" where
  "copyHeaders dst src = range_Add (range_Del dst (map fst dst)) src"

text \<open>
  The same call with one map for both arguments, \<open>copyHeaders(h, h)\<close>: the second loop
  runs over what the first loop left of \<open>h\<close>.  When the first loop has emptied the map,
  the second has nothing to visit and the map stays empty.  When entries are left, the
  second loop adds keys to the map it ranges over, and Go leaves open whether \<open>range\<close>
  visits them too: the result is not determined, which is \<open>None\<close> here.
\<close>

definition copyHeaders_same :: "Header \<Rightarrow> Header option" where
  "copyHeaders_same h = (if range_Del h (map fst h) = [] then Some [] else None)"

text \<open>A key is canonical when canonicalisation leaves it as it is.\<close>

definition canonical :: "string \<Rightarrow> bool" where
  "canonical k = (CanonicalMIMEHeaderKey k = k)"

section \<open>Connection tracking (conntrack)\<close>

text \<open>
  Go's \<open>time\<close> package, as far as \<open>MaybeIdleIn\<close> uses it.  A \<open>Time\<close> is counted in
  nanoseconds since the Unix epoch (its range is far wider than 64 bits, so it is an
  unbounded integer); a \<open>Duration\<close> is an \<open>int64\<close> of nanoseconds.  \<open>Time.Add\<close> is
  exact on these values, and \<open>Time.Sub\<close> returns the difference when it fits a
  \<open>Duration\<close> and the smallest or largest \<open>Duration\<close> otherwise.
\<close>

type_synonym Time = int
type_synonym Duration = int

definition minDuration :: Duration where
  "minDuration = - (2 ^ 63)"

definition maxDuration :: Duration where
  "maxDuration = 2 ^ 63 - 1"

definition Unix :: "int \<Rightarrow> int \<Rightarrow> Time" where
  "Unix sec nsec = sec * 1000000000 + nsec"

definition Time_Add :: "Time \<Rightarrow> Duration \<Rightarrow> Time" where
  "Time_Add t d = t + d"

definition Time_Sub :: "Time \<Rightarrow> Time \<Rightarrow> Duration" where
  "Time_Sub t u =
     (if t - u < minDuration then minDuration
      else if maxDuration < t - u then maxDuration
      else t - u)"

text \<open>
  \<open>InstrumentedConn\<close> is declared outside the sources at hand; \<open>MaybeIdleIn\<close> reads
  its \<open>LastActivity\<close> only, an \<open>int64\<close> loaded atomically.  The tracker's embedded
  \<open>sync.Map\<close> is the list of its keys, in the order \<open>Range\<close> visits them.
\<close>

record InstrumentedConn =
  LastActivity :: "64 word"

record Tracker =
  conns :: "InstrumentedConn list"
  ShuttingDown :: bool
  IdleThreshold :: "64 word"

text \<open>
  \<^verbatim>\<open>
  lastActivity := time.Unix(0, atomic.LoadInt64(c.LastActivity))
  idleAt := lastActivity.Add(tr.IdleThreshold)
  idleIn := idleAt.Sub(time.Now())
  \<close>
  with \<open>now\<close> the value \<open>time.Now()\<close> returns at this visit.
\<close>

definition idleAt :: "64 word \<Rightarrow> InstrumentedConn \<Rightarrow> Time" where
  "idleAt threshold c = Time_Add (Unix 0 (sint (LastActivity c))) (sint threshold)"

definition idleIn :: "64 word \<Rightarrow> Time \<Rightarrow> InstrumentedConn \<Rightarrow> Duration" where
  "idleIn threshold now c = Time_Sub (idleAt threshold c) now"

text \<open>
  The body of \<open>tr.Range\<close>: the clock is read once for every connection visited, so
  \<open>clock i\<close> is the reading of the \<open>i\<close>-th call of \<open>time.Now()\<close>.
\<close>

fun Range_longest ::
  "64 word \<Rightarrow> (nat \<Rightarrow> Time) \<Rightarrow> nat \<Rightarrow> InstrumentedConn list \<Rightarrow> Duration \<Rightarrow> Duration" where
  "Range_longest threshold clock i [] longest = longest"
| "Range_longest threshold clock i (c # cs) longest =
     Range_longest threshold clock (Suc i) cs
       (if idleIn threshold (clock i) c > longest then idleIn threshold (clock i) c
        else longest)"

definition MaybeIdleIn :: "(nat \<Rightarrow> Time) \<Rightarrow> Tracker \<Rightarrow> Duration" where
  "MaybeIdleIn clock tr = Range_longest (IdleThreshold tr) clock 0 (conns tr) 0"

section \<open>Requests and role extraction\<close>

record URL =
  Scheme :: string
  URL_Host :: string
  Path :: string

definition IsAbs :: "URL \<Rightarrow> bool" where
  "IsAbs u = (Scheme u \<noteq> [])"

record Certificate =
  Subject_CommonName :: string

record ConnectionState =
  PeerCertificates :: "Certificate list"

text \<open>
  \<open>http.Request\<close>: \<open>TLS\<close> is a pointer, nil for a request that did not arrive over TLS.
\<close>

record Request =
  Method :: string
  Target :: URL
  Host :: string
  Header :: Header
  RequestURI :: string
  TLS :: "ConnectionState option"

text \<open>
  What a call can end in besides its result: the error value \<open>MissingRoleError\<close> of
  package smokescreen, the run-time panic of a nil dereference, or the panic of
  \<open>WriteHeader\<close> on a status code that has not three digits.
\<close>

datatype failure =
    MissingRoleError string
  | NilPointerDereference
  | InvalidWriteHeaderCode nat

text \<open>\<open>fmt.Sprintf("%d", n)\<close> for a length.\<close>

function decimal :: "nat \<Rightarrow> string" where
  "decimal n = (if n < 10 then [char_of (48 + n)]
                else decimal (n div 10) @ [char_of (48 + n mod 10)])"
  by pat_completeness auto
termination
  by (relation "measure id") auto

text \<open>
  \<^verbatim>\<open>
  func testRFRHeader(req *http.Request) (string, error) {
      idHeader := req.Header["X-Smokescreen-Role"]
      if len(idHeader) != 1 {
          return "", smokescreen.MissingRoleError(fmt.Sprintf("Expected 1 header, got %d", len(idHeader)))
      }
      return idHeader[0], nil
  }
  func testRFRCert(req *http.Request) (string, error) {
      if len(req.TLS.PeerCertificates) == 0 {
          return "", smokescreen.MissingRoleError("client did not provide certificate")
      }
      return req.TLS.PeerCertificates[0].Subject.CommonName, nil
  }
  \<close>
\<close>

definition testRFRHeader :: "Request \<Rightarrow> failure + string" where
  "testRFRHeader req =
     (let idHeader = index (Header req) ''X-Smokescreen-Role'' in
        if length idHeader \<noteq> 1
        then Inl (MissingRoleError (''Expected 1 header, got '' @ decimal (length idHeader)))
        else Inr (idHeader ! 0))"

definition testRFRCert :: "Request \<Rightarrow> failure + string" where
  "testRFRCert req =
     (case TLS req of
        None \<Rightarrow> Inl NilPointerDereference
      | Some cs \<Rightarrow>
          if length (PeerCertificates cs) = 0
          then Inl (MissingRoleError ''client did not provide certificate'')
          else Inr (Subject_CommonName (PeerCertificates cs ! 0)))"

section \<open>Address classification\<close>

text \<open>
  An address is an IPv4 or an IPv6 address (\<open>net.ParseIP\<close> gives one or the other),
  read as the number its 32 or 128 bits spell, most significant byte first.  A network
  (\<open>net.IPNet\<close>) is an address with the length of its prefix, and contains the
  addresses of its family that agree with it on the bits of that prefix.
\<close>

datatype IP = IPv4 nat | IPv6 nat

type_synonym IPNet = "IP \<times> nat"

fun Contains :: "IPNet \<Rightarrow> IP \<Rightarrow> bool" where
  "Contains (IPv4 n, len) (IPv4 a) = (n div 2 ^ (32 - len) = a div 2 ^ (32 - len))"
| "Contains (IPv6 n, len) (IPv6 a) = (n div 2 ^ (128 - len) = a div 2 ^ (128 - len))"
| "Contains (IPv4 n, len) (IPv6 a) = False"
| "Contains (IPv6 n, len) (IPv4 a) = False"

definition ipIsInSetOfNetworks :: "IPNet list \<Rightarrow> IP \<Rightarrow> bool" where
  "ipIsInSetOfNetworks nets ip = list_ex (\<lambda>n. Contains n ip) nets"

definition ipv4 :: "nat \<Rightarrow> nat \<Rightarrow> nat \<Rightarrow> nat \<Rightarrow> IP" where
  "ipv4 a b c d = IPv4 (((a * 256 + b) * 256 + c) * 256 + d)"

text \<open>An IPv6 address from its first and its last group of 16 bits, zero between.\<close>

definition ipv6 :: "nat \<Rightarrow> nat \<Rightarrow> IP" where
  "ipv6 hi lo = IPv6 (hi * 2 ^ 112 + lo)"

text \<open>
  The address classes.  The tests name three of them (\<open>IpTypePublic\<close>,
  \<open>IpTypePrivate\<close>, \<open>IpTypeBlacklistExempted\<close>: the specification's PUBLIC, PRIVATE and
  ALLOWED\_EXEMPT); \<open>IpTypeDenied\<close> is the specification's DENIED.
\<close>

datatype IpType = IpTypePublic | IpTypePrivate | IpTypeBlacklistExempted | IpTypeDenied

text \<open>
  The built-in private set, by the specification's data model: the RFC1918 space,
  loopback (127/8, ::1), link-local (169.254/16, fe80::/10), broadcast (the two
  addresses the tests list as broadcast addresses, 255.255.255.255 and ff02::2) and the
  cloud metadata address 169.254.169.254.
\<close>

definition rfc1918 :: "IPNet list" where
  "rfc1918 = [(ipv4 10 0 0 0, 8), (ipv4 172 16 0 0, 12), (ipv4 192 168 0 0, 16)]"

definition loopback :: "IPNet list" where
  "loopback = [(ipv4 127 0 0 0, 8), (ipv6 0 1, 128)]"

definition link_local :: "IPNet list" where
  "link_local = [(ipv4 169 254 0 0, 16), (ipv6 0xfe80 0, 10)]"

definition broadcast :: "IPNet list" where
  "broadcast = [(ipv4 255 255 255 255, 32), (ipv6 0xff02 2, 128)]"

definition metadata :: "IPNet list" where
  "metadata = [(ipv4 169 254 169 254, 32)]"

definition PrivateNetworks :: "IPNet list" where
  "PrivateNetworks = rfc1918 @ loopback @ link_local @ broadcast @ metadata"

text \<open>
  The ranges of \<open>Config\<close>: the deny-ranges and allow-ranges of the configuration
  (\<open>deny\_ranges\<close> and \<open>allow\_ranges\<close> in config\_loader.go).
\<close>

record Config =
  DenyRanges :: "IPNet list"
  AllowRanges :: "IPNet list"

text \<open>
  Modelled from the spec: \<open>classifyIP\<close> (package smokescreen) is not among the sources;
  only its test \<open>TestClassifyIP\<close> is.  The checks and their order are the
  specification's (4.1): a deny-range first, then the built-in private set with the
  allow-ranges as exemptions, the remainder PUBLIC.  Step 3 of 4.1, which would exempt a
  public address inside an allow-range, is left out: the data model (3) exempts only
  addresses that would otherwise be PRIVATE, and the test expects PUBLIC ("whitelisting
  a IpTypePublic address does nothing").
\<close>

definition classifyIP :: "Config \<Rightarrow> IP \<Rightarrow> IpType" where
  "classifyIP config ip =
     (if ipIsInSetOfNetworks (DenyRanges config) ip then IpTypeDenied
      else if ipIsInSetOfNetworks PrivateNetworks ip then
        (if ipIsInSetOfNetworks (AllowRanges config) ip then IpTypeBlacklistExempted
         else IpTypePrivate)
      else IpTypePublic)"

text \<open>
  The fixtures of \<open>TestClassifyIP\<close> (smokescreen\_test.go): the exemptions
  \<open>cidrBlacklistExemptionsStrings\<close>, the configuration (\<open>CidrBlacklist:
  PrivateNetworks()\<close> is the built-in private set, \<open>CidrBlacklistExemptions\<close> are the
  allow-ranges, and nothing is denied) and the table \<open>testIPs\<close> of addresses with the
  class the test expects of each.
\<close>

definition cidrBlacklistExemptions :: "IPNet list" where
  "cidrBlacklistExemptions =
     [(ipv4 8 8 9 0, 24), (ipv4 10 0 1 0, 24), (ipv4 172 16 1 0, 24),
      (ipv4 192 168 1 0, 24), (ipv4 127 0 1 0, 24)]"

definition test_conf :: Config where
  "test_conf = \<lparr>DenyRanges = [], AllowRanges = cidrBlacklistExemptions\<rparr>"

definition testIPs :: "(IP \<times> IpType) list" where
  "testIPs =
     [(ipv4 8 8 8 8, IpTypePublic),
      (ipv4 8 8 9 8, IpTypePublic),
      (ipv4 10 0 0 1, IpTypePrivate),
      (ipv4 10 0 1 1, IpTypeBlacklistExempted),
      (ipv4 172 16 0 1, IpTypePrivate),
      (ipv4 172 16 1 1, IpTypeBlacklistExempted),
      (ipv4 192 168 0 1, IpTypePrivate),
      (ipv4 192 168 1 1, IpTypeBlacklistExempted),
      (ipv4 127 0 0 1, IpTypePrivate),
      (ipv4 127 255 255 255, IpTypePrivate),
      (ipv6 0 1, IpTypePrivate),
      (ipv4 127 0 1 1, IpTypePrivate),
      (ipv4 169 254 169 254, IpTypePrivate),
      (ipv4 255 255 255 255, IpTypePrivate),
      (ipv6 0xff02 2, IpTypePrivate)]"

section \<open>The proxy's handler (goproxy)\<close>

text \<open>
  A response body is an \<open>io.ReadCloser\<close>: an object with an identity, which
  \<open>origBody != resp.Body\<close> compares, and the bytes it yields.
\<close>

record ReadCloser =
  ident :: nat
  content :: string

record Response =
  StatusCode :: nat
  RespHeader :: Header
  Body :: ReadCloser

text \<open>
  What the handlers read and write of \<open>ProxyCtx\<close> (declared outside the sources at
  hand): the request, the response and the error of the round trip.  Handlers are Go
  closures; \<open>'s\<close> is whatever else they read and change.
\<close>

record ProxyCtx =
  Req :: Request
  Session :: "64 word"
  Error :: "string option"
  Resp :: "Response option"

type_synonym 's ReqHandler =
  "Request \<Rightarrow> ProxyCtx \<times> 's \<Rightarrow> (Request \<times> Response option) \<times> (ProxyCtx \<times> 's)"

type_synonym 's RespHandler =
  "Response option \<Rightarrow> ProxyCtx \<times> 's \<Rightarrow> Response option \<times> (ProxyCtx \<times> 's)"

text \<open>
  The client's side: the header map of the \<open>http.ResponseWriter\<close>, the status
  \<open>WriteHeader\<close> has sent (none yet at the start) and the bytes written.
\<close>

record ResponseWriter =
  WHeader :: Header
  WStatus :: "nat option"
  WBody :: string

text \<open>
  \<open>ProxyHttpServer\<close>.  \<open>Tr\<close> stands for \<open>proxy.Tr.DetailedRoundTrip\<close>, the network's
  answer to a request (an error text or a response), and \<open>handleHttps\<close> for the method
  of that name, which serves CONNECT and is declared outside the sources at hand.
\<close>

record 's ProxyHttpServer =
  sess :: "64 word"
  reqHandlers :: "'s ReqHandler list"
  respHandlers :: "'s RespHandler list"
  Tr :: "Request \<Rightarrow> string + Response"
  handleHttps :: "ResponseWriter \<Rightarrow> Request \<Rightarrow> 's \<Rightarrow> failure + ResponseWriter \<times> 's"

text \<open>\<open>Header.Set\<close>: the value list of the canonical key becomes the one value.\<close>

fun set_values :: "Header \<Rightarrow> string \<Rightarrow> string list \<Rightarrow> Header" where
  "set_values [] key vs = [(key, vs)]"
| "set_values ((k, ws) # h) key vs =
     (if k = key then (k, vs) # h else (k, ws) # set_values h key vs)"

definition Set :: "Header \<Rightarrow> string \<Rightarrow> string \<Rightarrow> Header" where
  "Set h key v = set_values h (CanonicalMIMEHeaderKey key) [v]"

text \<open>
  \<open>WriteHeader\<close> of the standard library's response writer: a second call is ignored,
  a status code below 100 or above 999 is a panic.  \<open>Write\<close> sends status 200 first
  when no status has been sent.
\<close>

definition WriteHeader :: "ResponseWriter \<Rightarrow> nat \<Rightarrow> failure + ResponseWriter" where
  "WriteHeader w code =
     (if WStatus w \<noteq> None then Inr w
      else if code < 100 \<or> 999 < code then Inl (InvalidWriteHeaderCode code)
      else Inr (w\<lparr>WStatus := Some code\<rparr>))"

definition Write :: "ResponseWriter \<Rightarrow> string \<Rightarrow> ResponseWriter" where
  "Write w bytes =
     (if WStatus w = None then w\<lparr>WStatus := Some 200\<rparr> else w)\<lparr>WBody := WBody w @ bytes\<rparr>"

text \<open>
  \<open>http.Error\<close> of the standard library: a plain-text answer with the given status and
  the error text, followed by a newline, as its body.
\<close>

definition http_Error :: "ResponseWriter \<Rightarrow> string \<Rightarrow> nat \<Rightarrow> failure + ResponseWriter" where
  "http_Error w err code =
     (case WriteHeader
             (w\<lparr>WHeader := Set (Set (WHeader w) ''Content-Type'' ''text/plain; charset=utf-8'')
                                ''X-Content-Type-Options'' ''nosniff''\<rparr>)
             code of
        Inl panic \<Rightarrow> Inl panic
      | Inr w' \<Rightarrow> Inr (Write w' (err @ [CHR 0x0A])))"

text \<open>The state that goes with what a call left on the client's side.\<close>

definition leaving :: "'t \<Rightarrow> failure + ResponseWriter \<Rightarrow> failure + ResponseWriter \<times> 't" where
  "leaving st result = (case result of Inl panic \<Rightarrow> Inl panic | Inr w \<Rightarrow> Inr (w, st))"

text \<open>
  \<^verbatim>\<open>
  func (proxy *ProxyHttpServer) filterRequest(r *http.Request, ctx *ProxyCtx) (req *http.Request, resp *http.Response) {
      req = r
      for _, h := range proxy.reqHandlers {
          req, resp = h.Handle(r, ctx)
          if resp != nil { break }
      }
      return
  }
  func (proxy *ProxyHttpServer) filterResponse(respOrig *http.Response, ctx *ProxyCtx) (resp *http.Response) {
      resp = respOrig
      for _, h := range proxy.respHandlers {
          ctx.Resp = resp
          resp = h.Handle(resp, ctx)
      }
      return
  }
  \<close>
  Every request handler is given the request \<open>r\<close> that \<open>filterRequest\<close> received.
\<close>

fun range_reqHandlers ::
  "'s ReqHandler list \<Rightarrow> Request \<Rightarrow> Request \<times> Response option \<Rightarrow> ProxyCtx \<times> 's \<Rightarrow>
   (Request \<times> Response option) \<times> (ProxyCtx \<times> 's)" where
  "range_reqHandlers [] r result st = (result, st)"
| "range_reqHandlers (h # hs) r result st =
     (case h r st of
        ((req, resp), st') \<Rightarrow>
          if resp \<noteq> None then ((req, resp), st')
          else range_reqHandlers hs r (req, resp) st')"

definition filterRequest ::
  "'s ProxyHttpServer \<Rightarrow> Request \<Rightarrow> ProxyCtx \<times> 's \<Rightarrow>
   (Request \<times> Response option) \<times> (ProxyCtx \<times> 's)" where
  "filterRequest proxy r st = range_reqHandlers (reqHandlers proxy) r (r, None) st"

fun range_respHandlers ::
  "'s RespHandler list \<Rightarrow> Response option \<Rightarrow> ProxyCtx \<times> 's \<Rightarrow>
   Response option \<times> (ProxyCtx \<times> 's)" where
  "range_respHandlers [] resp st = (resp, st)"
| "range_respHandlers (h # hs) resp (ctx, s) =
     (case h resp (ctx\<lparr>Resp := resp\<rparr>, s) of
        (resp', st') \<Rightarrow> range_respHandlers hs resp' st')"

definition filterResponse ::
  "'s ProxyHttpServer \<Rightarrow> Response option \<Rightarrow> ProxyCtx \<times> 's \<Rightarrow>
   Response option \<times> (ProxyCtx \<times> 's)" where
  "filterResponse proxy respOrig st = range_respHandlers (respHandlers proxy) respOrig st"

text \<open>
  \<^verbatim>\<open>
  func removeProxyHeaders(ctx *ProxyCtx, r *http.Request) {
      r.RequestURI = ""
      r.Header.Del("Accept-Encoding")
      r.Header.Del("Proxy-Connection")
      r.Header.Del("Connection")
  }
  \<close>
\<close>

definition removeProxyHeaders :: "Request \<Rightarrow> Request" where
  "removeProxyHeaders r =
     r\<lparr>RequestURI := [],
       Header := Del (Del (Del (Header r) ''Accept-Encoding'') ''Proxy-Connection'') ''Connection''\<rparr>"

text \<open>
  The end of \<open>ServeHTTP\<close>, from \<open>origBody := resp.Body\<close> on: the response handlers
  run on the response, \<open>Content-Length\<close> is deleted when they changed the body, headers,
  status and body go to the client.  A handler that returns nil makes the next line
  (\<open>resp.Status\<close>) dereference nil.
\<close>

definition copyResponse ::
  "'s ProxyHttpServer \<Rightarrow> ResponseWriter \<Rightarrow> Response \<Rightarrow> ProxyCtx \<times> 's \<Rightarrow>
   failure + ResponseWriter \<times> (ProxyCtx \<times> 's)" where
  "copyResponse proxy w resp0 st =
     (let origBody = Body resp0 in
      case filterResponse proxy (Some resp0) st of
        (None, st') \<Rightarrow> Inl NilPointerDereference
      | (Some resp, st') \<Rightarrow>
          let header = (if ident origBody \<noteq> ident (Body resp)
                        then Del (RespHeader resp) ''Content-Length'' else RespHeader resp);
              w1 = w\<lparr>WHeader := copyHeaders (WHeader w) header\<rparr>
          in (case WriteHeader w1 (StatusCode resp) of
                Inl panic \<Rightarrow> Inl panic
              | Inr w2 \<Rightarrow> Inr (Write w2 (content (Body resp)), st')))"

text \<open>
  From \<open>r, resp := proxy.filterRequest(r, ctx)\<close> to the round trip: a request that no
  handler answered is sent upstream; when that fails, the response handlers are asked
  for a response to the error, and without one the client gets status 500.
\<close>

definition forward ::
  "'s ProxyHttpServer \<Rightarrow> ResponseWriter \<Rightarrow> Request \<Rightarrow> ProxyCtx \<times> 's \<Rightarrow>
   failure + ResponseWriter \<times> (ProxyCtx \<times> 's)" where
  "forward proxy w r0 st0 =
     (case filterRequest proxy r0 st0 of
        ((r, Some resp), st) \<Rightarrow> copyResponse proxy w resp st
      | ((r, None), (ctx, s)) \<Rightarrow>
          (case Tr proxy (removeProxyHeaders r) of
             Inr resp \<Rightarrow> copyResponse proxy w resp (ctx, s)
           | Inl err \<Rightarrow>
               (case filterResponse proxy None (ctx\<lparr>Error := Some err\<rparr>, s) of
                  (None, st') \<Rightarrow> leaving st' (http_Error w err 500)
                | (Some resp, st') \<Rightarrow> copyResponse proxy w resp st')))"

text \<open>
  Two reads through a value that may be nil: \<open>err.Error()\<close> on an error variable and
  \<open>r.URL.Path\<close> on the URL of a request.  On nil each is a run-time panic.
\<close>

definition Error_text :: "string option \<Rightarrow> failure + string" where
  "Error_text err = (case err of None \<Rightarrow> Inl NilPointerDereference | Some e \<Rightarrow> Inr e)"

definition URL_Path :: "URL option \<Rightarrow> failure + string" where
  "URL_Path u = (case u of None \<Rightarrow> Inl NilPointerDereference | Some v \<Rightarrow> Inr (Path v))"

text \<open>
  The branch of \<open>ServeHTTP\<close> for a request that is not a CONNECT.  \<open>url\_Parse\<close> is
  \<open>url.Parse\<close> of the standard library: it returns the URL, or an error together with
  the nil URL, and line 256 stores what it returns in \<open>r.URL\<close> and \<open>err\<close>.
  \<^verbatim>\<open>
  var err error
  if !r.URL.IsAbs() {
      if r.Host == "" {
          ctx.Warnf("non-proxy request received, without Host header")
          http.Error(w, err.Error(), 500)
          return
      }
      r.URL, err = url.Parse("http://" + r.Host + r.URL.Path)
      if err != nil {
          ctx.Warnf("unparsable path or host received, by non-proxy request: %+#v", r.URL.Path)
          http.Error(w, err.Error(), 500)
          return
      }
  }
  \<close>
  In the first branch \<open>err\<close> is still the nil error of its declaration when
  \<open>err.Error()\<close> is evaluated; in the second \<open>r.URL\<close> is nil when the warning reads
  \<open>r.URL.Path\<close>.  The arguments of a call are evaluated before the call.
\<close>

definition ServeHTTP_plain ::
  "(string \<Rightarrow> string + URL) \<Rightarrow> 's ProxyHttpServer \<Rightarrow> ResponseWriter \<Rightarrow> Request \<Rightarrow> 's \<Rightarrow>
   failure + ResponseWriter \<times> (ProxyCtx \<times> 's)" where
  "ServeHTTP_plain url_Parse proxy w r s =
     (let ctx = \<lparr>Req = r, Session = sess proxy + 1, Error = None, Resp = None\<rparr> in
      if \<not> IsAbs (Target r) then
        if Host r = [] then
          (case Error_text None of
             Inl panic \<Rightarrow> Inl panic
           | Inr msg \<Rightarrow> leaving (ctx, s) (http_Error w msg 500))
        else
          (case url_Parse (''http://'' @ Host r @ Path (Target r)) of
             Inl err \<Rightarrow>
               (case URL_Path None of
                  Inl panic \<Rightarrow> Inl panic
                | Inr path \<Rightarrow>
                    (case Error_text (Some err) of
                       Inl panic \<Rightarrow> Inl panic
                     | Inr msg \<Rightarrow> leaving (ctx, s) (http_Error w msg 500)))
           | Inr u \<Rightarrow> forward proxy w (r\<lparr>Target := u\<rparr>) (ctx\<lparr>Req := r\<lparr>Target := u\<rparr>\<rparr>, s))
      else forward proxy w r (ctx, s))"

text \<open>
  The whole method: CONNECT goes to \<open>handleHttps\<close>, every other request through the
  lines above; what is left at the end is the client's side and the handlers' state.
\<close>

definition ServeHTTP ::
  "(string \<Rightarrow> string + URL) \<Rightarrow> 's ProxyHttpServer \<Rightarrow> ResponseWriter \<Rightarrow> Request \<Rightarrow> 's \<Rightarrow>
   failure + ResponseWriter \<times> 's" where
  "ServeHTTP url_Parse proxy w r s =
     (if Method r = ''CONNECT'' then handleHttps proxy w r s
      else (case ServeHTTP_plain url_Parse proxy w r s of
              Inl f \<Rightarrow> Inl f
            | Inr (w', (ctx, s')) \<Rightarrow> Inr (w', s')))"

section \<open>Fixtures\<close>

text \<open>Concrete trackers, requests and servers on which the theorems below are run.\<close>

definition tracker2 :: Tracker where
  "tracker2 = \<lparr>conns = [\<lparr>LastActivity = 1000\<rparr>, \<lparr>LastActivity = 4000\<rparr>],
               ShuttingDown = False, IdleThreshold = 500\<rparr>"

definition request_with_role :: Request where
  "request_with_role =
     \<lparr>Method = ''GET'', Target = \<lparr>Scheme = ''http'', URL_Host = ''example.com:80'', Path = ''/''\<rparr>,
      Host = ''example.com:80'',
      Header = [(''X-Smokescreen-Role'', [''egressneedingservice-open'']), (''X-Random-Trace'', [''7''])],
      RequestURI = ''http://example.com:80/'',
      TLS = Some \<lparr>PeerCertificates = [\<lparr>Subject_CommonName = ''open''\<rparr>]\<rparr>\<rparr>"

text \<open>The same request, received over plain HTTP.\<close>

definition request_without_TLS :: Request where
  "request_without_TLS = request_with_role\<lparr>TLS := None\<rparr>"

text \<open>A proxy without handlers whose upstream refuses the connection.\<close>

definition no_handlers :: "unit ProxyHttpServer" where
  "no_handlers =
     \<lparr>sess = 0, reqHandlers = [], respHandlers = [],
      Tr = (\<lambda>r. Inl ''dial tcp: connection refused''),
      handleHttps = (\<lambda>w r s. Inr (w, s))\<rparr>"

definition fresh_writer :: ResponseWriter where
  "fresh_writer = \<lparr>WHeader = [], WStatus = None, WBody = []\<rparr>"

text \<open>\<open>GET / HTTP/1.0\<close> without a \<open>Host\<close> header.\<close>

definition request_without_Host :: Request where
  "request_without_Host =
     \<lparr>Method = ''GET'', Target = \<lparr>Scheme = [], URL_Host = [], Path = ''/''\<rparr>, Host = [],
      Header = [], RequestURI = ''/'', TLS = None\<rparr>"

text \<open>
  \<open>GET /\<close> with the header \<open>Host: %zz\<close>, and a \<open>url.Parse\<close> that rejects the escape
  in \<open>http://%zz/\<close>, as Go's does.
\<close>

definition request_bad_Host :: Request where
  "request_bad_Host = request_without_Host\<lparr>Host := ''%zz''\<rparr>"

definition rejects_escape :: "string \<Rightarrow> string + URL" where
  "rejects_escape raw =
     (if CHR ''%'' \<in> set raw then Inl ''invalid URL escape''
      else Inr \<lparr>Scheme = ''http'', URL_Host = drop 7 raw, Path = []\<rparr>)"



section \<open>Properties\<close>

subsection \<open>Connection tracking\<close>

lemma Max_insert_absorb:
  fixes x :: int
  assumes "finite S" "x \<le> a"
  shows "Max (insert x (insert a S)) = Max (insert a S)"
proof -
  have "a \<le> Max (insert a S)" using assms(1) by simp
  then have "x \<le> Max (insert a S)" using assms(2) by linarith
  then show ?thesis using assms(1) by (simp add: max_def)
qed

lemma Range_longest_Max:
  "Range_longest thr clock i cs longest =
     Max (insert longest ((\<lambda>j. idleIn thr (clock (i + j)) (cs ! j)) ` {..<length cs}))"
proof (induction cs arbitrary: i longest)
  case Nil
  then show ?case by simp
next
  case (Cons c cs)
  let ?f = "\<lambda>j. idleIn thr (clock (i + j)) ((c # cs) ! j)"
  let ?g = "\<lambda>j. idleIn thr (clock (Suc i + j)) (cs ! j)"
  have img: "?f ` {..<length (c # cs)} = insert (?f 0) (?g ` {..<length cs})"
  proof -
    have "{..<length (c # cs)} = insert 0 (Suc ` {..<length cs})"
      by (simp add: lessThan_Suc_eq_insert_0)
    then have "?f ` {..<length (c # cs)} = insert (?f 0) (?f ` Suc ` {..<length cs})"
      by simp
    also have "?f ` Suc ` {..<length cs} = ?g ` {..<length cs}"
      by (simp add: image_image)
    finally show ?thesis .
  qed
  have fin: "finite (?g ` {..<length cs})" by simp
  show ?case
  proof (cases "idleIn thr (clock i) c > longest")
    case True
    have absorb: "Max (insert longest (insert (?f 0) (?g ` {..<length cs}))) =
                  Max (insert (?f 0) (?g ` {..<length cs}))"
      by (rule Max_insert_absorb) (use True fin in simp_all)
    from True have "Range_longest thr clock i (c # cs) longest =
                 Max (insert (?f 0) (?g ` {..<length cs}))"
      by (simp add: Cons.IH)
    then show ?thesis by (simp only: img absorb)
  next
    case False
    have absorb: "Max (insert (?f 0) (insert longest (?g ` {..<length cs}))) =
                  Max (insert longest (?g ` {..<length cs}))"
      by (rule Max_insert_absorb) (use False fin in simp_all)
    from False have "Range_longest thr clock i (c # cs) longest =
                 Max (insert longest (?g ` {..<length cs}))"
      by (simp add: Cons.IH)
    then show ?thesis by (simp only: img absorb insert_commute [of longest])
  qed
qed

lemma MaybeIdleIn_Max:
  "MaybeIdleIn clock tr =
     Max (insert 0 ((\<lambda>i. idleIn (IdleThreshold tr) (clock i) (conns tr ! i)) `
                     {..<length (conns tr)}))"
  using Range_longest_Max [of "IdleThreshold tr" clock 0 "conns tr" 0]
  by (simp add: MaybeIdleIn_def)

lemma idleIn_exact:
  "idleIn thr now c =
     max minDuration (min maxDuration (sint (LastActivity c) + sint thr - now))"
  by (simp add: idleIn_def idleAt_def Time_Sub_def Time_Add_def Unix_def
      minDuration_def maxDuration_def)

lemma idleIn_nonpos:
  "sint (LastActivity c) + sint thr \<le> now \<Longrightarrow> idleIn thr now c \<le> 0"
  by (simp add: idleIn_exact minDuration_def maxDuration_def)

lemma Max_insert0_image:
  fixes f :: "nat \<Rightarrow> int"
  assumes "finite I"
  shows "Max (insert 0 (f ` insert a I)) = max (f a) (Max (insert 0 (f ` I)))"
proof -
  have "insert 0 (f ` insert a I) = insert (f a) (insert 0 (f ` I))" by auto
  then show ?thesis using assms by simp
qed

lemma Max_clipped:
  fixes x :: "nat \<Rightarrow> int"
  assumes "finite I"
  shows "Max (insert 0 ((\<lambda>i. max minDuration (min maxDuration (x i))) ` I)) =
         min maxDuration (Max (insert 0 (x ` I)))"
  using assms
proof (induction I)
  case empty
  show ?case by (simp add: maxDuration_def)
next
  case (insert a I)
  have nonneg: "0 \<le> Max (insert 0 (x ` I))" using insert.hyps(1) by simp
  have "Max (insert 0 ((\<lambda>i. max minDuration (min maxDuration (x i))) ` insert a I)) =
        max (max minDuration (min maxDuration (x a))) (min maxDuration (Max (insert 0 (x ` I))))"
    using insert.hyps(1) insert.IH by (simp only: Max_insert0_image)
  also have "\<dots> = min maxDuration (max (x a) (Max (insert 0 (x ` I))))"
    using nonneg by (simp add: minDuration_def maxDuration_def max_def min_def)
  also have "\<dots> = min maxDuration (Max (insert 0 (x ` insert a I)))"
    using insert.hyps(1) by (simp only: Max_insert0_image)
  finally show ?case .
qed

lemma sint64_le_maxDuration: "sint (w :: 64 word) \<le> maxDuration"
  using sint_lt [of w] by (simp add: maxDuration_def)

lemma Max_le_maxDuration:
  fixes x :: "nat \<Rightarrow> int"
  assumes "\<forall>i < n. x i \<le> maxDuration"
  shows "Max (insert 0 (x ` {..<n})) \<le> maxDuration"
proof -
  have "\<forall>y \<in> insert 0 (x ` {..<n}). y \<le> maxDuration"
    using assms by (auto simp: maxDuration_def)
  then show ?thesis by simp
qed

lemma MaybeIdleIn_capped:
  "MaybeIdleIn clock tr =
     min maxDuration
       (Max (insert 0 ((\<lambda>i. sint (LastActivity (conns tr ! i)) + sint (IdleThreshold tr) - clock i) `
                        {..<length (conns tr)})))"
  using Max_clipped [of "{..<length (conns tr)}"
      "\<lambda>i. sint (LastActivity (conns tr ! i)) + sint (IdleThreshold tr) - clock i"]
  by (simp add: MaybeIdleIn_Max idleIn_exact)

text \<open>
  Claim C5.  \<open>MaybeIdleIn\<close> returns the largest of 0 and, over the tracked connections,
  \<open>idle_in = last_activity + idle_threshold - now\<close>, where \<open>now\<close> is the clock reading
  taken when the connection is visited and the difference is the \<open>Duration\<close> that
  \<open>Time.Sub\<close> returns.  In exact arithmetic this is the largest of 0 and the
  differences, held at the largest \<open>Duration\<close>, and the largest of 0 and the differences
  itself whenever no last activity lies after its clock reading.  So \<open>MaybeIdleIn\<close>
  returns 0 for an empty registry, 0 when every connection's last activity lies at least
  \<open>idle_threshold\<close> before its reading of the clock, and never a negative duration.
\<close>
theorem MaybeIdleIn_longest:
  "MaybeIdleIn clock tr =
     Max (insert 0 ((\<lambda>i. idleIn (IdleThreshold tr) (clock i) (conns tr ! i)) `
                     {..<length (conns tr)}))
   \<and> MaybeIdleIn clock tr =
       min maxDuration
         (Max (insert 0 ((\<lambda>i. sint (LastActivity (conns tr ! i)) + sint (IdleThreshold tr) - clock i) `
                          {..<length (conns tr)})))
   \<and> ((\<forall>i < length (conns tr). sint (LastActivity (conns tr ! i)) \<le> clock i) \<longrightarrow>
        MaybeIdleIn clock tr =
          Max (insert 0 ((\<lambda>i. sint (LastActivity (conns tr ! i)) + sint (IdleThreshold tr) - clock i) `
                          {..<length (conns tr)})))
   \<and> (conns tr = [] \<longrightarrow> MaybeIdleIn clock tr = 0)
   \<and> ((\<forall>i < length (conns tr).
          sint (LastActivity (conns tr ! i)) + sint (IdleThreshold tr) \<le> clock i)
        \<longrightarrow> MaybeIdleIn clock tr = 0)
   \<and> 0 \<le> MaybeIdleIn clock tr"
proof (intro conjI impI)
  let ?S = "(\<lambda>i. idleIn (IdleThreshold tr) (clock i) (conns tr ! i)) ` {..<length (conns tr)}"
  let ?x = "\<lambda>i. sint (LastActivity (conns tr ! i)) + sint (IdleThreshold tr) - clock i"
  show max: "MaybeIdleIn clock tr = Max (insert 0 ?S)" by (rule MaybeIdleIn_Max)
  show capped: "MaybeIdleIn clock tr = min maxDuration (Max (insert 0 (?x ` {..<length (conns tr)})))"
    by (rule MaybeIdleIn_capped)
  show "MaybeIdleIn clock tr = Max (insert 0 (?x ` {..<length (conns tr)}))"
    if past: "\<forall>i < length (conns tr). sint (LastActivity (conns tr ! i)) \<le> clock i"
  proof -
    have "\<forall>i < length (conns tr). ?x i \<le> maxDuration"
    proof (intro allI impI)
      fix i assume "i < length (conns tr)"
      with past have "?x i \<le> sint (IdleThreshold tr)" by simp
      also have "\<dots> \<le> maxDuration" by (rule sint64_le_maxDuration)
      finally show "?x i \<le> maxDuration" .
    qed
    then have "Max (insert 0 (?x ` {..<length (conns tr)})) \<le> maxDuration"
      by (rule Max_le_maxDuration)
    with capped show ?thesis by simp
  qed
  show "MaybeIdleIn clock tr = 0" if "conns tr = []"
    using that by (simp add: MaybeIdleIn_def)
  show "MaybeIdleIn clock tr = 0"
    if idle: "\<forall>i < length (conns tr).
          sint (LastActivity (conns tr ! i)) + sint (IdleThreshold tr) \<le> clock i"
  proof -
    have "\<forall>x \<in> insert 0 ?S. x \<le> 0"
      using idle by (auto simp: idleIn_nonpos)
    then have "Max (insert 0 ?S) \<le> 0" by simp
    moreover have "0 \<le> Max (insert 0 ?S)" by simp
    ultimately show ?thesis using max by linarith
  qed
  show "0 \<le> MaybeIdleIn clock tr" unfolding max by simp
qed

text \<open>
  C5 on a tracker with two connections and a threshold of 500ns: both idle at 5000ns;
  read at 4200ns and 4201ns, the second one is idle 299ns later.
\<close>
theorem MaybeIdleIn_longest_witness:
  "MaybeIdleIn (\<lambda>i. 5000) tracker2 = 0 \<and> MaybeIdleIn (\<lambda>i. 4200 + int i) tracker2 = 299"
proof -
  have idle: "\<forall>i < length (conns tracker2).
      sint (LastActivity (conns tracker2 ! i)) + sint (IdleThreshold tracker2) \<le> (\<lambda>i. 5000) i"
    by (simp add: tracker2_def less_Suc_eq nth_Cons')
  have a: "MaybeIdleIn (\<lambda>i. 5000) tracker2 = 0"
    using MaybeIdleIn_longest [of "\<lambda>i. 5000" tracker2] idle by blast
  have b: "MaybeIdleIn (\<lambda>i. 4200 + int i) tracker2 = 299"
    by (simp add: MaybeIdleIn_def tracker2_def idleIn_exact minDuration_def maxDuration_def)
  from a b show ?thesis by simp
qed



subsection \<open>Role extraction\<close>

text \<open>
  Claim C8, amended.  Header-based role extraction returns the value of
  \<open>X-Smokescreen-Role\<close> exactly when the request carries exactly one value for that
  header, and a \<open>MissingRoleError\<close> when the header is absent or carries another number
  of values.  TLS-based extraction, on a request that arrived over TLS
  (\<open>startSmokescreen\<close> installs it for the TLS listener only), returns a
  \<open>MissingRoleError\<close> when no peer certificate was presented and the Common Name of the
  first peer certificate otherwise.
\<close>
theorem role_extraction:
  "(\<forall>v. index (Header req) ''X-Smokescreen-Role'' = [v] \<longrightarrow> testRFRHeader req = Inr v)
   \<and> ((\<exists>role. testRFRHeader req = Inr role) \<longleftrightarrow>
        length (index (Header req) ''X-Smokescreen-Role'') = 1)
   \<and> (length (index (Header req) ''X-Smokescreen-Role'') \<noteq> 1 \<longrightarrow>
        (\<exists>msg. testRFRHeader req = Inl (MissingRoleError msg)))
   \<and> (\<forall>cs. TLS req = Some cs \<longrightarrow> PeerCertificates cs = [] \<longrightarrow>
        (\<exists>msg. testRFRCert req = Inl (MissingRoleError msg)))
   \<and> (\<forall>cs c more. TLS req = Some cs \<longrightarrow> PeerCertificates cs = c # more \<longrightarrow>
        testRFRCert req = Inr (Subject_CommonName c))"
  by (auto simp: testRFRHeader_def testRFRCert_def Let_def)

text \<open>
  C8 on a request with one role header and one client certificate, on the same request
  without headers, and on the same request without a certificate.
\<close>
theorem role_extraction_witness:
  "testRFRHeader request_with_role = Inr ''egressneedingservice-open''
   \<and> testRFRCert request_with_role = Inr ''open''
   \<and> (\<exists>msg. testRFRHeader (request_with_role\<lparr>Header := []\<rparr>) = Inl (MissingRoleError msg))
   \<and> (\<exists>msg. testRFRCert (request_with_role\<lparr>TLS := Some \<lparr>PeerCertificates = []\<rparr>\<rparr>) =
         Inl (MissingRoleError msg))"
proof -
  have h: "index (Header request_with_role) ''X-Smokescreen-Role'' = [''egressneedingservice-open'']"
    by (simp add: request_with_role_def index_def)
  have a: "testRFRHeader request_with_role = Inr ''egressneedingservice-open''"
    using role_extraction [of request_with_role] h by blast
  have t: "TLS request_with_role = Some \<lparr>PeerCertificates = [\<lparr>Subject_CommonName = ''open''\<rparr>]\<rparr>"
    by (simp add: request_with_role_def)
  have b: "testRFRCert request_with_role = Inr ''open''"
    using role_extraction [of request_with_role] t by simp
  have n: "length (index (Header (request_with_role\<lparr>Header := []\<rparr>)) ''X-Smokescreen-Role'') \<noteq> 1"
    by (simp add: index_def)
  have c: "\<exists>msg. testRFRHeader (request_with_role\<lparr>Header := []\<rparr>) = Inl (MissingRoleError msg)"
    using role_extraction [of "request_with_role\<lparr>Header := []\<rparr>"] n by blast
  have d: "\<exists>msg. testRFRCert (request_with_role\<lparr>TLS := Some \<lparr>PeerCertificates = []\<rparr>\<rparr>) =
         Inl (MissingRoleError msg)"
    using role_extraction [of "request_with_role\<lparr>TLS := Some \<lparr>PeerCertificates = []\<rparr>\<rparr>"]
    by simp
  from a b c d show ?thesis by blast
qed

text \<open>
  C8 as stated fails for a request that did not arrive over TLS: it presents no peer
  certificate, \<open>req.TLS\<close> is nil, and TLS-based extraction ends in a nil dereference
  instead of returning a \<open>MissingRoleError\<close>.
\<close>
theorem role_extraction_counterexample:
  "TLS request_without_TLS = None
   \<and> testRFRCert request_without_TLS = Inl NilPointerDereference"
  by (simp add: request_without_TLS_def request_with_role_def testRFRCert_def)

subsection \<open>copyHeaders\<close>

lemma Del_canonical: "canonical k \<Longrightarrow> Del h k = filter (\<lambda>p. fst p \<noteq> k) h"
  by (simp add: Del_def canonical_def case_prod_unfold)

lemma range_Del_empty:
  "\<forall>k \<in> set ks. canonical k \<Longrightarrow> fst ` set h \<subseteq> set ks \<Longrightarrow> range_Del h ks = []"
proof (induction ks arbitrary: h)
  case Nil
  then show ?case by simp
next
  case (Cons k ks)
  have "fst ` set (Del h k) \<subseteq> set ks"
    using Cons.prems by (auto simp: Del_canonical)
  with Cons show ?case by simp
qed

lemma append_value_fresh:
  "key \<notin> fst ` set h \<Longrightarrow> append_value h key v = h @ [(key, [v])]"
  by (induction h key v rule: append_value.induct) auto

lemma append_value_last:
  "key \<notin> fst ` set h \<Longrightarrow> append_value (h @ [(key, ws)]) key v = h @ [(key, ws @ [v])]"
  by (induction h key v rule: append_value.induct) auto

lemma range_values_last:
  "canonical k \<Longrightarrow> k \<notin> fst ` set h \<Longrightarrow>
   range_values (h @ [(k, ws)]) k vs = h @ [(k, ws @ vs)]"
  by (induction vs arbitrary: ws) (simp_all add: Add_def canonical_def append_value_last)

lemma range_values_fresh:
  assumes "canonical k" "k \<notin> fst ` set h" "vs \<noteq> []"
  shows "range_values h k vs = h @ [(k, vs)]"
proof -
  obtain v vs' where vs: "vs = v # vs'" using assms(3) by (cases vs) auto
  show ?thesis
    using assms(1,2) range_values_last [of k h "[v]" vs']
    by (simp add: vs Add_def canonical_def append_value_fresh)
qed

lemma range_Add_append:
  "distinct (map fst src) \<Longrightarrow> \<forall>(k, vs) \<in> set src. canonical k \<and> vs \<noteq> [] \<Longrightarrow>
   fst ` set acc \<inter> fst ` set src = {} \<Longrightarrow> range_Add acc src = acc @ src"
proof (induction src arbitrary: acc)
  case Nil
  then show ?case by simp
next
  case (Cons p src)
  obtain k vs where p: "p = (k, vs)" by (cases p)
  from Cons.prems p have k: "canonical k" "vs \<noteq> []" "k \<notin> fst ` set acc" by auto
  have step: "range_values acc k vs = acc @ [(k, vs)]"
    using k by (simp add: range_values_fresh)
  have "range_Add (acc @ [(k, vs)]) src = (acc @ [(k, vs)]) @ src"
    using Cons.prems p by (intro Cons.IH) (auto simp: image_iff)
  then show ?case by (simp add: p step)
qed

text \<open>
  Claim C10, amended.  For two different header maps whose keys are in canonical MIME
  form, where every key of \<open>src\<close> has at least one value, \<open>dst\<close> holds after
  \<open>copyHeaders(dst, src)\<close> exactly the contents of \<open>src\<close>, every value list whole and
  in order, whatever \<open>dst\<close> held before: the same as after \<open>copyHeaders(empty, src)\<close>.
  (\<open>src\<close> is a map: its keys are pairwise different.)
\<close>
theorem copyHeaders_canonical:
  assumes "distinct (map fst src)"
    and "\<forall>(k, vs) \<in> set src. canonical k \<and> vs \<noteq> []"
    and "\<forall>k \<in> fst ` set dst. canonical k"
  shows "copyHeaders dst src = src \<and> copyHeaders dst src = copyHeaders [] src
         \<and> map_of (copyHeaders dst src) = map_of src"
proof -
  have "range_Del dst (map fst dst) = []"
    using assms(3) by (intro range_Del_empty) auto
  then have a: "copyHeaders dst src = src"
    using range_Add_append [of src "[]"] assms(1,2) by (simp add: copyHeaders_def)
  have b: "copyHeaders [] src = src"
    using range_Add_append [of src "[]"] assms(1,2) by (simp add: copyHeaders_def)
  from a b show ?thesis by simp
qed

text \<open>C10 on a destination with two stale keys and a source with a two-valued key.\<close>
theorem copyHeaders_canonical_witness:
  "copyHeaders [(''Content-Type'', [''text/html'']), (''X-Old'', [''1''])]
               [(''Set-Cookie'', [''a=1'', ''b=2'']), (''Content-Type'', [''text/plain''])]
     = [(''Set-Cookie'', [''a=1'', ''b=2'']), (''Content-Type'', [''text/plain''])]"
proof -
  have c: "canonical ''Set-Cookie''" "canonical ''Content-Type''" "canonical ''X-Old''"
    unfolding canonical_def by code_simp+
  have 1: "distinct (map fst [(''Set-Cookie'', [''a=1'', ''b=2'']), (''Content-Type'', [''text/plain''])])"
    by simp
  have 2: "\<forall>(k, vs) \<in> set [(''Set-Cookie'', [''a=1'', ''b=2'']), (''Content-Type'', [''text/plain''])].
             canonical k \<and> vs \<noteq> []"
    using c by simp
  have 3: "\<forall>k \<in> fst ` set [(''Content-Type'', [''text/html'']), (''X-Old'', [''1''])]. canonical k"
    using c by simp
  from copyHeaders_canonical [OF 1 2 3] show ?thesis by blast
qed

text \<open>
  C10 as stated fails for arbitrary header maps: a key of \<open>dst\<close> that is not canonical
  survives (\<open>Del\<close> deletes its canonical form), a key of \<open>src\<close> that is not canonical
  arrives under another name, a key of \<open>src\<close> without values does not arrive, the
  result depends on what \<open>dst\<close> held, and with one map for \<open>dst\<close> and \<open>src\<close> the
  map ends empty instead of keeping what \<open>src\<close> held.
\<close>
theorem copyHeaders_counterexample:
  "map_of (copyHeaders [(''x-old'', [''1''])] []) ''x-old'' = Some [''1'']
   \<and> map_of [] ''x-old'' = (None :: string list option)
   \<and> copyHeaders [] [(''x-new'', [''1''])] = [(''X-New'', [''1''])]
   \<and> copyHeaders [] [(''X-New'', [])] = []
   \<and> copyHeaders [(''x-old'', [''1''])] [(''X-New'', [''2''])] \<noteq> copyHeaders [] [(''X-New'', [''2''])]
   \<and> copyHeaders_same [(''X-New'', [''2''])] = Some []
   \<and> copyHeaders [] [(''X-New'', [''2''])] = [(''X-New'', [''2''])]"
proof -
  have a: "copyHeaders [(''x-old'', [''1''])] [] = [(''x-old'', [''1''])]" by code_simp
  have b: "copyHeaders [] [(''x-new'', [''1''])] = [(''X-New'', [''1''])]" by code_simp
  have c: "copyHeaders [] [(''X-New'', [])] = []" by code_simp
  have d: "copyHeaders [(''x-old'', [''1''])] [(''X-New'', [''2''])] =
             [(''x-old'', [''1'']), (''X-New'', [''2''])]" by code_simp
  have e: "copyHeaders [] [(''X-New'', [''2''])] = [(''X-New'', [''2''])]" by code_simp
  have f: "copyHeaders_same [(''X-New'', [''2''])] = Some []" by code_simp
  show ?thesis unfolding a b c d e f by simp
qed

subsection \<open>Address classification\<close>

lemmas network_defs =
  ipIsInSetOfNetworks_def rfc1918_def loopback_def link_local_def broadcast_def
  metadata_def PrivateNetworks_def ipv4_def ipv6_def

lemmas fixture_defs = test_conf_def cidrBlacklistExemptions_def

text \<open>
  The model against the table of \<open>TestClassifyIP\<close>: it gives the expected class in
  every row but the one of 127.0.1.1, where the table expects PRIVATE inside the allowed
  127.0.1.0/24 ("whitelisting a localhost address does nothing") and the
  specification's step 2 gives the exemption, as the integration test needs for
  127.0.0.1 under \<open>--allow-range=127.0.0.1/32\<close>.  The sources disagree there.
\<close>

lemma classifyIP_on_testIPs:
  "list_all (\<lambda>(ip, expected). classifyIP test_conf ip = expected)
     (filter (\<lambda>(ip, expected). ip \<noteq> ipv4 127 0 1 1) testIPs)
   \<and> map_of testIPs (ipv4 127 0 1 1) = Some IpTypePrivate
   \<and> classifyIP test_conf (ipv4 127 0 1 1) = IpTypeBlacklistExempted"
  by (simp add: testIPs_def classifyIP_def network_defs fixture_defs)

lemma rfc1918_private:
  "ipIsInSetOfNetworks rfc1918 ip \<Longrightarrow> ipIsInSetOfNetworks PrivateNetworks ip"
  by (simp add: ipIsInSetOfNetworks_def PrivateNetworks_def)

text \<open>
  Claim C3, amended.  An address that matches no configured deny-range and is not in the
  built-in private set classifies as PUBLIC, whether or not it lies inside a configured
  allow-range: 8.8.9.8 with 8.8.9.0/24 among the allow-ranges classifies as PUBLIC.
\<close>
theorem public_address_stays_public:
  "(\<not> ipIsInSetOfNetworks (DenyRanges config) ip \<longrightarrow>
    \<not> ipIsInSetOfNetworks PrivateNetworks ip \<longrightarrow> classifyIP config ip = IpTypePublic)
   \<and> classifyIP test_conf (ipv4 8 8 9 8) = IpTypePublic"
proof (intro conjI impI)
  assume d: "\<not> ipIsInSetOfNetworks (DenyRanges config) ip"
    and p: "\<not> ipIsInSetOfNetworks PrivateNetworks ip"
  from d p show "classifyIP config ip = IpTypePublic" by (simp add: classifyIP_def)
next
  show "classifyIP test_conf (ipv4 8 8 9 8) = IpTypePublic"
    by (simp add: classifyIP_def network_defs fixture_defs)
qed

text \<open>C3 on 1.1.1.1 with 1.1.1.0/24 allowed.\<close>
theorem public_address_stays_public_witness:
  "classifyIP (test_conf\<lparr>AllowRanges := [(ipv4 1 1 1 0, 24)]\<rparr>) (ipv4 1 1 1 1) = IpTypePublic"
proof -
  have d: "\<not> ipIsInSetOfNetworks (DenyRanges (test_conf\<lparr>AllowRanges := [(ipv4 1 1 1 0, 24)]\<rparr>))
              (ipv4 1 1 1 1)"
    by (simp add: network_defs fixture_defs)
  have p: "\<not> ipIsInSetOfNetworks PrivateNetworks (ipv4 1 1 1 1)"
    by (simp add: network_defs)
  from public_address_stays_public [of "test_conf\<lparr>AllowRanges := [(ipv4 1 1 1 0, 24)]\<rparr>"
      "ipv4 1 1 1 1"] d p
  show ?thesis by blast
qed

text \<open>
  C3 as stated fails at its own example: 8.8.9.8 matches no deny-range, is not private
  and lies inside the allowed 8.8.9.0/24, and the class the table of \<open>TestClassifyIP\<close>
  expects of it is \<open>IpTypePublic\<close>, not the exempted one.
\<close>
theorem allow_range_public_counterexample:
  "\<not> ipIsInSetOfNetworks (DenyRanges test_conf) (ipv4 8 8 9 8)
   \<and> \<not> ipIsInSetOfNetworks PrivateNetworks (ipv4 8 8 9 8)
   \<and> ipIsInSetOfNetworks (AllowRanges test_conf) (ipv4 8 8 9 8)
   \<and> map_of testIPs (ipv4 8 8 9 8) = Some IpTypePublic
   \<and> classifyIP test_conf (ipv4 8 8 9 8) \<noteq> IpTypeBlacklistExempted"
  by (simp add: classifyIP_def testIPs_def network_defs fixture_defs)

text \<open>
  Claim C4.  Every address of the RFC1918 space lies in the built-in private set and,
  when it matches no configured deny-range, classifies as ALLOWED\_EXEMPT inside a
  configured allow-range and as PRIVATE otherwise.  With 10.0.1.0/24 among the
  allow-ranges 10.0.1.1 is exempt, and in the test's configuration 10.0.0.1 is PRIVATE.
\<close>
theorem rfc1918_exempt_or_private:
  "(ipIsInSetOfNetworks rfc1918 ip \<longrightarrow> \<not> ipIsInSetOfNetworks (DenyRanges config) ip \<longrightarrow>
      ipIsInSetOfNetworks PrivateNetworks ip \<and>
      classifyIP config ip =
        (if ipIsInSetOfNetworks (AllowRanges config) ip then IpTypeBlacklistExempted
         else IpTypePrivate))
   \<and> ((ipv4 10 0 1 0, 24) \<in> set (AllowRanges config) \<longrightarrow>
        \<not> ipIsInSetOfNetworks (DenyRanges config) (ipv4 10 0 1 1) \<longrightarrow>
        classifyIP config (ipv4 10 0 1 1) = IpTypeBlacklistExempted)
   \<and> (ipv4 10 0 1 0, 24) \<in> set (AllowRanges test_conf)
   \<and> classifyIP test_conf (ipv4 10 0 1 1) = IpTypeBlacklistExempted
   \<and> classifyIP test_conf (ipv4 10 0 0 1) = IpTypePrivate"
proof (intro conjI impI)
  show "ipIsInSetOfNetworks PrivateNetworks ip" if "ipIsInSetOfNetworks rfc1918 ip"
    using that by (rule rfc1918_private)
  show "classifyIP config ip =
        (if ipIsInSetOfNetworks (AllowRanges config) ip then IpTypeBlacklistExempted
         else IpTypePrivate)"
    if "ipIsInSetOfNetworks rfc1918 ip" "\<not> ipIsInSetOfNetworks (DenyRanges config) ip"
    using that rfc1918_private [of ip] by (simp add: classifyIP_def)
  show "classifyIP config (ipv4 10 0 1 1) = IpTypeBlacklistExempted"
    if a: "(ipv4 10 0 1 0, 24) \<in> set (AllowRanges config)"
      and d: "\<not> ipIsInSetOfNetworks (DenyRanges config) (ipv4 10 0 1 1)"
  proof -
    have "Contains (ipv4 10 0 1 0, 24) (ipv4 10 0 1 1)" by (simp add: ipv4_def)
    with a have "ipIsInSetOfNetworks (AllowRanges config) (ipv4 10 0 1 1)"
      by (auto simp: ipIsInSetOfNetworks_def list_ex_iff)
    moreover have "ipIsInSetOfNetworks PrivateNetworks (ipv4 10 0 1 1)"
      by (simp add: network_defs)
    ultimately show ?thesis using d by (simp add: classifyIP_def)
  qed
  show "(ipv4 10 0 1 0, 24) \<in> set (AllowRanges test_conf)"
    by (simp add: fixture_defs)
  show "classifyIP test_conf (ipv4 10 0 1 1) = IpTypeBlacklistExempted"
    by (simp add: classifyIP_def network_defs fixture_defs)
  show "classifyIP test_conf (ipv4 10 0 0 1) = IpTypePrivate"
    by (simp add: classifyIP_def network_defs fixture_defs)
qed

text \<open>C4 on 192.168.1.1 (allowed) and 172.16.0.1 (not allowed) in the test's configuration.\<close>
theorem rfc1918_exempt_or_private_witness:
  "classifyIP test_conf (ipv4 192 168 1 1) = IpTypeBlacklistExempted
   \<and> classifyIP test_conf (ipv4 172 16 0 1) = IpTypePrivate"
proof -
  have r: "ipIsInSetOfNetworks rfc1918 (ipv4 192 168 1 1)"
      "ipIsInSetOfNetworks rfc1918 (ipv4 172 16 0 1)"
    by (simp_all add: network_defs)
  have d: "\<not> ipIsInSetOfNetworks (DenyRanges test_conf) (ipv4 192 168 1 1)"
      "\<not> ipIsInSetOfNetworks (DenyRanges test_conf) (ipv4 172 16 0 1)"
    by (simp_all add: network_defs fixture_defs)
  have a: "ipIsInSetOfNetworks (AllowRanges test_conf) (ipv4 192 168 1 1)"
      "\<not> ipIsInSetOfNetworks (AllowRanges test_conf) (ipv4 172 16 0 1)"
    by (simp_all add: network_defs fixture_defs)
  from rfc1918_exempt_or_private [of "ipv4 192 168 1 1" test_conf] r(1) d(1) a(1)
  have 1: "classifyIP test_conf (ipv4 192 168 1 1) = IpTypeBlacklistExempted" by simp
  from rfc1918_exempt_or_private [of "ipv4 172 16 0 1" test_conf] r(2) d(2) a(2)
  have 2: "classifyIP test_conf (ipv4 172 16 0 1) = IpTypePrivate" by simp
  from 1 2 show ?thesis by simp
qed



subsection \<open>Requests without a usable target\<close>

text \<open>
  Every request of this kind ends the same way, whatever handlers and transport the
  proxy has.
\<close>

lemma ServeHTTP_plain_unusable:
  assumes "\<not> IsAbs (Target r)"
    and "Host r = [] \<or> (\<exists>err. url_Parse (''http://'' @ Host r @ Path (Target r)) = Inl err)"
  shows "ServeHTTP_plain url_Parse proxy w r s = Inl NilPointerDereference"
proof (cases "Host r = []")
  case True
  with assms(1) show ?thesis
    by (simp add: ServeHTTP_plain_def Error_text_def)
next
  case False
  with assms(2) obtain err where "url_Parse (''http://'' @ Host r @ Path (Target r)) = Inl err"
    by blast
  with False assms(1) show ?thesis
    by (simp add: ServeHTTP_plain_def URL_Path_def)
qed

text \<open>
  Claim C7.  The claim asks for status 400 on a plain request whose target URL is not
  absolute and whose \<open>Host\<close> header is unusable.  On \<open>GET /\<close> with \<open>Host: %zz\<close>
  the target is not absolute and \<open>url.Parse\<close> rejects the host; \<open>ServeHTTP\<close> then
  reads \<open>r.URL.Path\<close> through the nil URL that the failed parse left in \<open>r.URL\<close> and
  ends in a nil dereference, before the \<open>http.Error(w, err.Error(), 500)\<close> of the next
  line: no status is written.
\<close>
theorem request_bad_Host_panics:
  "Method request_bad_Host \<noteq> ''CONNECT''
   \<and> \<not> IsAbs (Target request_bad_Host)
   \<and> rejects_escape (''http://'' @ Host request_bad_Host @ Path (Target request_bad_Host))
       = Inl ''invalid URL escape''
   \<and> ServeHTTP rejects_escape no_handlers fresh_writer request_bad_Host ()
       = Inl NilPointerDereference"
  by (simp add: ServeHTTP_def ServeHTTP_plain_def request_bad_Host_def request_without_Host_def
      rejects_escape_def IsAbs_def Error_text_def URL_Path_def)

text \<open>
  Claim C6.  The claim asks for a well-formed response and no crash wherever the proxy
  refuses a request.  On \<open>GET / HTTP/1.0\<close> without a \<open>Host\<close> header, \<open>ServeHTTP\<close>
  refuses the request and ends in a nil dereference: no status and no body are written.
\<close>
theorem request_without_Host_panics:
  "ServeHTTP rejects_escape no_handlers fresh_writer request_without_Host ()
     = Inl NilPointerDereference"
  by (simp add: ServeHTTP_def ServeHTTP_plain_def request_without_Host_def IsAbs_def
      Error_text_def)


end
